theory Spec2Isabelle
  imports Main
begin

section \<open>Strings\<close>

text \<open>
  A Python string is modelled as a HOL string: an ASCII character is itself, any other
  character is the bytes of its UTF-8 encoding. The slash is one byte and is part of no
  other character's encoding, so splitting and joining at the byte \<open>CHR ''/''\<close> is
  splitting and joining at the character. The script uses four string operations of the
  Python library: \<^verbatim>\<open>str.split(sep)\<close> with the one-character separator
  \<^verbatim>\<open>'/'\<close>, \<^verbatim>\<open>sep.join(parts)\<close>, \<^verbatim>\<open>str.lower()\<close> and
  \<^verbatim>\<open>str.upper()\<close>, and the slice \<^verbatim>\<open>parts[-2:]\<close> and the index
  \<^verbatim>\<open>parts[-1]\<close>. The first two are defined here. The case mappings are the
  Unicode tables of the library (they change letters of every alphabet, and the length
  of a string at times): they are not computed here but taken as given, as the fields
  \<open>str_lower\<close> and \<open>str_upper\<close> of the world below, so that what is proved holds for
  whatever the library's mappings are.

  \<open>split_from sep cur s\<close> scans \<open>s\<close> from the left with the segment \<open>cur\<close> read so
  far: a separator closes the segment and opens an empty one, the end of the string
  closes the last segment. So the split of a string with \<open>k\<close> separators has \<open>k + 1\<close>
  segments, and the split of the empty string is the list of one empty segment, as in
  Python.
\<close>

fun split_from :: "char \<Rightarrow> string \<Rightarrow> string \<Rightarrow> string list" where
  "split_from sep cur [] = [cur]"
| "split_from sep cur (c # cs) =
     (if c = sep then cur # split_from sep [] cs else split_from sep (cur @ [c]) cs)"

definition str_split :: "char \<Rightarrow> string \<Rightarrow> string list" where
  "str_split sep s = split_from sep [] s"

fun str_join :: "string \<Rightarrow> string list \<Rightarrow> string" where
  "str_join sep [] = []"
| "str_join sep [p] = p"
| "str_join sep (p # q # ps) = p @ sep @ str_join sep (q # ps)"

definition newline :: string where
  "newline = [CHR 0x0A]"

definition quote :: string where
  "quote = [CHR 0x27]"

section \<open>Exceptions, slices and indices\<close>

text \<open>
  The exceptions that can leave a function of the script: \<open>EOFError\<close> from
  \<^verbatim>\<open>input()\<close> at the end of standard input, \<open>IndexError\<close> from an index out of
  range, and \<open>OtherException msg\<close> for any other subclass of \<^verbatim>\<open>Exception\<close>
  raised by a library call (a program that cannot be started raises
  \<^verbatim>\<open>FileNotFoundError\<close>, for one), with the text \<^verbatim>\<open>str(e)\<close>.
  \<^verbatim>\<open>CalledProcessError\<close> is caught wherever the script can raise it, so it is
  modelled at its handlers.
\<close>

datatype py_exception = EOFError | IndexError | OtherException string

text \<open>\<^verbatim>\<open>xs[i:]\<close>: a negative start counts from the end, and the start is clamped
  to the list.\<close>

definition slice_from :: "'a list \<Rightarrow> int \<Rightarrow> 'a list" where
  "slice_from xs i =
     (let n = int (length xs);
          start = (if i < 0 then max (n + i) 0 else min i n)
      in drop (nat start) xs)"

text \<open>\<^verbatim>\<open>xs[i]\<close>: a negative index counts from the end; out of range raises.\<close>

definition py_index :: "'a list \<Rightarrow> int \<Rightarrow> py_exception + 'a" where
  "py_index xs i =
     (let k = (if i < 0 then int (length xs) + i else i)
      in if k < 0 \<or> int (length xs) \<le> k then Inl IndexError else Inr (xs ! nat k))"

section \<open>The run of the script: events and the outside world\<close>

text \<open>
  What a run does to the outside is a list of events, in order: a call of the login
  function with a token, a text written to standard output, a prompt shown by
  \<^verbatim>\<open>input\<close>, a program started by \<^verbatim>\<open>subprocess.run\<close> with an argument
  list, one started by \<^verbatim>\<open>subprocess.Popen\<close>, and a command line handed to the
  shell (\<^verbatim>\<open>shell=True\<close>). An event records the attempt, whatever its outcome.
  \<open>is_Shell\<close> and the like tell the kind of an event.
\<close>

datatype event =
    is_Login: Login string
  | is_Print: Print string
  | is_Input: Input string
  | is_Run: Run "string list"
  | is_Popen: Popen "string list"
  | is_Shell: Shell string

text \<open>A computation yields its events and either an exception that leaves it or a value.\<close>

type_synonym 'a io = "event list \<times> (py_exception + 'a)"

definition return_io :: "'a \<Rightarrow> 'a io" where
  "return_io x = ([], Inr x)"

definition emit :: "event \<Rightarrow> unit io" where
  "emit ev = ([ev], Inr ())"

definition bind_io :: "'a io \<Rightarrow> ('a \<Rightarrow> 'b io) \<Rightarrow> 'b io" where
  "bind_io m f =
     (case snd m of
        Inl e \<Rightarrow> (fst m, Inl e)
      | Inr x \<Rightarrow> (fst m @ fst (f x), snd (f x)))"

definition then_io :: "'a io \<Rightarrow> 'b io \<Rightarrow> 'b io" where
  "then_io m k = bind_io m (\<lambda>_. k)"

text \<open>\<^verbatim>\<open>print(s)\<close> writes \<open>s\<close> and a newline; \<^verbatim>\<open>print(s, end='')\<close> writes \<open>s\<close>.\<close>

definition print :: "string \<Rightarrow> unit io" where
  "print s = emit (Print (s @ newline))"

definition print_end :: "string \<Rightarrow> string \<Rightarrow> unit io" where
  "print_end s e = emit (Print (s @ e))"

text \<open>\<^verbatim>\<open>input(prompt)\<close> shows the prompt and returns the line read, or raises
  \<^verbatim>\<open>EOFError\<close> when there is none (\<open>None\<close>).\<close>

definition input :: "string \<Rightarrow> string option \<Rightarrow> string io" where
  "input prompt line =
     (case line of
        None \<Rightarrow> ([Input prompt], Inl EOFError)
      | Some s \<Rightarrow> ([Input prompt], Inr s))"

text \<open>
  The outcome of starting a program: it ran to its end and the library call has its
  exit status and, where output is captured, the decoded output (\<open>Finished\<close>); or the
  library call raised an exception other than \<^verbatim>\<open>CalledProcessError\<close>
  (\<open>Raises\<close>, with \<^verbatim>\<open>str(e)\<close>): the program could not be started, or its
  captured output could not be decoded. With \<^verbatim>\<open>check=True\<close> a \<open>Finished\<close>
  outcome with a non-zero exit status is the case in which
  \<^verbatim>\<open>CalledProcessError\<close> is raised.
\<close>

datatype 'a attempt = Finished 'a | Raises string

record completed_process =
  returncode :: int
  stdout :: string
  stderr :: string

text \<open>
  Everything a run reads from outside. Each external call happens at most once in a
  run, so the world holds one outcome for each:
  \<^item> \<open>HF_TOKEN\<close>: \<^verbatim>\<open>os.getenv('HF_TOKEN')\<close>, \<open>None\<close> when the variable is absent;
  \<^item> \<open>argv\<close>: \<^verbatim>\<open>sys.argv\<close>;
  \<^item> \<open>login_result\<close>: \<open>None\<close> when \<^verbatim>\<open>login\<close> returns, \<open>Some msg\<close> when it
    raises an exception with text \<open>msg\<close>;
  \<^item> \<open>url_line\<close>, \<open>method_line\<close>: the line \<^verbatim>\<open>input\<close> reads at the prompt for the
    repository URL and for the method, \<open>None\<close> at the end of input;
  \<^item> \<open>lfs_result\<close>, \<open>convert_result\<close>: the outcome of \<^verbatim>\<open>git lfs install\<close> and of
    the conversion program, with the captured output;
  \<^item> \<open>clone_result\<close>: the lines \<^verbatim>\<open>git clone\<close> writes to its standard error, and
    how the \<^verbatim>\<open>with\<close> block ends: the exit status, or an exception;
  \<^item> \<open>quantize_result\<close>: the outcome of the shell command, its exit status;
  \<^item> \<open>quantize_error_text\<close>: the text \<^verbatim>\<open>str(e)\<close> of the
    \<^verbatim>\<open>CalledProcessError\<close> of the shell command, as the library renders it;
  \<^item> \<open>str_lower\<close>, \<open>str_upper\<close>: the library's \<^verbatim>\<open>str.lower()\<close> and
    \<^verbatim>\<open>str.upper()\<close>.
\<close>

record world =
  HF_TOKEN :: "string option"
  argv :: "string list"
  login_result :: "string option"
  url_line :: "string option"
  method_line :: "string option"
  lfs_result :: "completed_process attempt"
  clone_result :: "string list \<times> int attempt"
  convert_result :: "completed_process attempt"
  quantize_result :: "int attempt"
  quantize_error_text :: string
  str_lower :: "string \<Rightarrow> string"
  str_upper :: "string \<Rightarrow> string"

section \<open>The functions of the script\<close>

text \<open>
  \<^verbatim>\<open>hf_login\<close>. \<^verbatim>\<open>if hf_token:\<close> is false for an absent variable and for an
  empty one. Any \<^verbatim>\<open>Exception\<close> of \<^verbatim>\<open>login\<close> is caught and printed.
\<close>

definition hf_login :: "world \<Rightarrow> unit io" where
  "hf_login w =
     (case HF_TOKEN w of
        None \<Rightarrow> print ''Hugging Face token not found in environment variables.''
      | Some hf_token \<Rightarrow>
          if hf_token \<noteq> [] then
            then_io (emit (Login hf_token))
              (case login_result w of
                 None \<Rightarrow> print ''Logged in to Hugging Face successfully.''
               | Some e \<Rightarrow> print (''Failed to log in to Hugging Face: '' @ e))
          else print ''Hugging Face token not found in environment variables.'')"

text \<open>The loop \<^verbatim>\<open>for line in proc.stderr: print(line, end='')\<close>.\<close>

fun print_lines :: "string list \<Rightarrow> unit io" where
  "print_lines [] = return_io ()"
| "print_lines (line # rest) = then_io (print_end line []) (print_lines rest)"

text \<open>
  \<^verbatim>\<open>clone_repository\<close>. \<^verbatim>\<open>check=True\<close> raises \<^verbatim>\<open>CalledProcessError\<close> on a
  non-zero exit status, which the first handler catches; the second handler catches every
  other \<^verbatim>\<open>Exception\<close> of the \<^verbatim>\<open>try\<close> block.
\<close>

definition clone_repository :: "world \<Rightarrow> string \<Rightarrow> unit io" where
  "clone_repository w repository_url =
     then_io (emit (Run [''git'', ''lfs'', ''install'']))
       (case lfs_result w of
          Raises e \<Rightarrow> print (''An error occurred: '' @ e)
        | Finished lfs_process \<Rightarrow>
            if returncode lfs_process \<noteq> 0 then
              then_io (print ''Error during Git LFS initialization:'')
                (print (stderr lfs_process))
            else
              then_io (print (''Git LFS initialized.'' @ newline @ stdout lfs_process))
             (then_io (emit (Popen [''git'', ''clone'', repository_url]))
             (then_io (print_lines (fst (clone_result w)))
                (case snd (clone_result w) of
                   Raises e \<Rightarrow> print (''An error occurred: '' @ e)
                 | Finished proc_returncode \<Rightarrow>
                     if proc_returncode = 0 then print ''Repository cloned successfully.''
                     else print ''Error occurred while cloning the repository.''))))"

definition extract_model_id :: "string \<Rightarrow> string" where
  "extract_model_id repository_url =
     (let parts = str_split CHR ''/'' repository_url;
          model_id = str_join ''/'' (slice_from parts (- 2))
      in model_id)"

text \<open>
  \<^verbatim>\<open>convert_model_to_fp16\<close>. Only \<^verbatim>\<open>CalledProcessError\<close> is caught: another
  exception of \<^verbatim>\<open>subprocess.run\<close> leaves the function.
\<close>

definition convert_model_to_fp16 :: "world \<Rightarrow> string \<Rightarrow> string \<Rightarrow> unit io" where
  "convert_model_to_fp16 w model_name fp16_output_file =
     (let command = [''python'', ''llama.cpp/convert.py'', model_name,
                     ''--outtype'', ''f16'', ''--outfile'', fp16_output_file]
      in then_io (emit (Run command))
           (case convert_result w of
              Raises e \<Rightarrow> ([], Inl (OtherException e))
            | Finished result \<Rightarrow>
                if returncode result = 0 then
                  then_io (print ''Model conversion to fp16 successful. Output:'')
                    (print (stdout result))
                else
                  then_io (print ''An error occurred during model conversion:'')
                    (print (stderr result))))"

text \<open>The dictionary \<^verbatim>\<open>QUANTIZATION_METHODS\<close>, in insertion order (the order of
  \<^verbatim>\<open>items()\<close>).\<close>

definition QUANTIZATION_METHODS :: "(string \<times> string) list" where
  "QUANTIZATION_METHODS =
    [(''q2_k'', ''Uses Q4_K for the attention.vw and feed_forward.w2 tensors, Q2_K for the other tensors.''),
     (''q3_k_l'', ''Uses Q5_K for the attention.wv, attention.wo, and feed_forward.w2 tensors, else Q3_K''),
     (''q3_k_m'', ''Uses Q4_K for the attention.wv, attention.wo, and feed_forward.w2 tensors, else Q3_K''),
     (''q3_k_s'', ''Uses Q3_K for all tensors''),
     (''q4_0'', ''Original quant method, 4-bit.''),
     (''q4_1'', ''Higher accuracy than q4_0 but not as high as q5_0. However has quicker inference than q5 models.''),
     (''q4_k_m'', ''Uses Q6_K for half of the attention.wv and feed_forward.w2 tensors, else Q4_K''),
     (''q4_k_s'', ''Uses Q4_K for all tensors''),
     (''q5_0'', ''Higher accuracy, higher resource usage and slower inference.''),
     (''q5_1'', ''Even higher accuracy, resource usage and slower inference.''),
     (''q5_k_m'', ''Uses Q6_K for half of the attention.wv and feed_forward.w2 tensors, else Q5_K''),
     (''q5_k_s'', ''Uses Q5_K for all tensors''),
     (''q6_k'', ''Uses Q8_K for all tensors''),
     (''q8_0'', ''Almost indistinguishable from float16. High resource use and slow. Not recommended for most users.'')]"

subsection \<open>The steps of \<^verbatim>\<open>main\<close>\<close>

text \<open>Lines 137 to 140: the repository URL is the first argument, or is asked for.\<close>

definition obtain_repository_url :: "world \<Rightarrow> string io" where
  "obtain_repository_url w =
     (if length (argv w) > 1 then return_io (argv w ! 1)
      else input ''Enter the Git repository URL: '' (url_line w))"

text \<open>Line 144: \<^verbatim>\<open>MODEL_NAME = model_id.split('/')[-1]\<close>.\<close>

definition MODEL_NAME :: "string \<Rightarrow> py_exception + string" where
  "MODEL_NAME model_id = py_index (str_split CHR ''/'' model_id) (- 1)"

text \<open>Lines 145, 163 and 164: the three formatted strings.\<close>

definition fp16_output_file :: "world \<Rightarrow> string \<Rightarrow> string" where
  "fp16_output_file w name = name @ ''/'' @ str_lower w name @ ''.fp16.bin''"

definition qtype :: "world \<Rightarrow> string \<Rightarrow> string \<Rightarrow> string" where
  "qtype w name method =
     name @ ''/'' @ str_lower w name @ ''.'' @ str_upper w method @ ''.gguf''"

definition quantize_command :: "string \<Rightarrow> string \<Rightarrow> string \<Rightarrow> string" where
  "quantize_command fp16 out method =
     ''./llama.cpp/quantize '' @ fp16 @ '' '' @ out @ '' '' @ method"

text \<open>The loop of lines 158 and 159 over the items of the dictionary.\<close>

fun print_items :: "(string \<times> string) list \<Rightarrow> unit io" where
  "print_items [] = return_io ()"
| "print_items ((key, description) # rest) =
     then_io (print (key @ '': '' @ description)) (print_items rest)"

text \<open>Lines 154 to 160: the method is the second argument, or the catalog is printed
  and the method is asked for.\<close>

definition obtain_method :: "world \<Rightarrow> string io" where
  "obtain_method w =
     (if length (argv w) > 2 then return_io (argv w ! 2)
      else
        then_io (print ''Please choose a quantization method from the following options:'')
       (then_io (print_items QUANTIZATION_METHODS)
          (input ''Enter your chosen quantization method: '' (method_line w))))"

text \<open>Lines 167 to 171: the command line is run by the shell; a non-zero exit status is
  caught and printed, any other exception leaves \<^verbatim>\<open>main\<close>.\<close>

definition run_quantize :: "world \<Rightarrow> string \<Rightarrow> string \<Rightarrow> unit io" where
  "run_quantize w command method =
     then_io (emit (Shell command))
       (case quantize_result w of
          Raises e \<Rightarrow> ([], Inl (OtherException e))
        | Finished status \<Rightarrow>
            if status = 0 then
              print (''Quantization with method '' @ quote @ method @ quote @
                     '' completed successfully.'')
            else
              print (''An error occurred during quantization: '' @ quantize_error_text w))"

text \<open>
  \<^verbatim>\<open>main\<close>, lines 133 to 171. The local variables \<^verbatim>\<open>MODEL_NAME\<close>,
  \<^verbatim>\<open>fp16_output_file\<close>, \<^verbatim>\<open>qtype\<close> and \<^verbatim>\<open>quantize_command\<close> are
  \<open>name\<close>, \<open>fp16\<close>, \<open>out\<close> and \<open>command\<close> here; the constants of those names
  are the expressions that compute them.
\<close>

definition main :: "world \<Rightarrow> unit io" where
  "main w =
     then_io (hf_login w)
    (bind_io (obtain_repository_url w) (\<lambda>repository_url.
     let model_id = extract_model_id repository_url in
     bind_io ([], MODEL_NAME model_id) (\<lambda>name.
     let fp16 = fp16_output_file w name in
     then_io (clone_repository w repository_url)
    (then_io (convert_model_to_fp16 w name fp16)
    (bind_io (obtain_method w) (\<lambda>method.
     let out = qtype w name method;
         command = quantize_command fp16 out method
     in run_quantize w command method))))))"

subsection \<open>Example runs\<close>

text \<open>
  The case mappings of the example runs. On a string of ASCII characters the library's
  mappings change the 26 letters and nothing else; the example runs apply them to such
  strings only. (They are no model of the library's mappings on other strings, and no
  theorem below depends on them but through an example run.)
\<close>

definition ascii_lower_char :: "char \<Rightarrow> char" where
  "ascii_lower_char c =
     (case map_of (zip ''ABCDEFGHIJKLMNOPQRSTUVWXYZ'' ''abcdefghijklmnopqrstuvwxyz'') c of
        Some d \<Rightarrow> d
      | None \<Rightarrow> c)"

definition ascii_upper_char :: "char \<Rightarrow> char" where
  "ascii_upper_char c =
     (case map_of (zip ''abcdefghijklmnopqrstuvwxyz'' ''ABCDEFGHIJKLMNOPQRSTUVWXYZ'') c of
        Some d \<Rightarrow> d
      | None \<Rightarrow> c)"

definition ascii_lower :: "string \<Rightarrow> string" where
  "ascii_lower s = map ascii_lower_char s"

definition ascii_upper :: "string \<Rightarrow> string" where
  "ascii_upper s = map ascii_upper_char s"

text \<open>
  Concrete worlds on which the theorems below are evaluated. In \<open>run_complete\<close> the
  token is absent, both arguments are on the command line and every program exits with
  status 0.
\<close>

definition run_complete :: world where
  "run_complete =
     \<lparr>HF_TOKEN = None,
      argv = [''hfDownloadQuantizeLLM.py'', ''https://huggingface.co/org/Foo-7B'', ''q4_k_m''],
      login_result = None,
      url_line = None,
      method_line = None,
      lfs_result = Finished \<lparr>returncode = 0, stdout = ''Git LFS initialized.'', stderr = []\<rparr>,
      clone_result = ([''Cloning into Foo-7B...''], Finished 0),
      convert_result = Finished \<lparr>returncode = 0, stdout = ''done'', stderr = []\<rparr>,
      quantize_result = Finished 0,
      quantize_error_text = [],
      str_lower = ascii_lower,
      str_upper = ascii_upper\<rparr>"

text \<open>No argument on the command line: the URL and a method that is not in the catalog
  are typed at the prompts.\<close>

definition run_prompted :: world where
  "run_prompted =
     run_complete
       \<lparr>argv := [''hfDownloadQuantizeLLM.py''],
        url_line := Some ''https://huggingface.co/org/Foo-7B'',
        method_line := Some ''fastest; echo done''\<rparr>"

text \<open>The conversion program exits with status 1; the method is on the command line.\<close>

definition run_conversion_fails :: world where
  "run_conversion_fails =
     run_complete
       \<lparr>convert_result :=
          Finished \<lparr>returncode = 1, stdout = [], stderr = ''convert.py: no model found''\<rparr>\<rparr>"

text \<open>\<^verbatim>\<open>git lfs install\<close> exits with status 1; the later programs run.\<close>

definition run_lfs_fails :: world where
  "run_lfs_fails =
     run_complete
       \<lparr>lfs_result :=
          Finished \<lparr>returncode = 1, stdout = [], stderr = ''git: lfs is not a git command''\<rparr>\<rparr>"

section \<open>Splitting and joining\<close>

lemma split_from_not_Nil: "split_from sep cur s \<noteq> []"
  by (induction s arbitrary: cur) auto

lemma str_split_not_Nil: "str_split sep s \<noteq> []"
  by (simp add: str_split_def split_from_not_Nil)

lemma str_join_Cons: "ps \<noteq> [] \<Longrightarrow> str_join sep (p # ps) = p @ sep @ str_join sep ps"
  by (cases ps) auto

text \<open>Joining the segments of a string gives the string back.\<close>

lemma str_join_split_from: "str_join [sep] (split_from sep cur s) = cur @ s"
  by (induction s arbitrary: cur) (auto simp: str_join_Cons split_from_not_Nil)

lemma str_join_str_split: "str_join [sep] (str_split sep s) = s"
  by (simp add: str_split_def str_join_split_from)

text \<open>No segment contains the separator.\<close>

lemma split_from_no_sep:
  "sep \<notin> set cur \<Longrightarrow> \<forall>p \<in> set (split_from sep cur s). sep \<notin> set p"
proof (induction s arbitrary: cur)
  case Nil
  then show ?case by simp
next
  case (Cons c s)
  show ?case
  proof (cases "c = sep")
    case True
    have "\<forall>p \<in> set (split_from sep [] s). sep \<notin> set p"
      using Cons.IH [of "[]"] by simp
    with True Cons.prems show ?thesis by simp
  next
    case False
    with Cons.prems have "\<forall>p \<in> set (split_from sep (cur @ [c]) s). sep \<notin> set p"
      using Cons.IH [of "cur @ [c]"] by simp
    with False show ?thesis by simp
  qed
qed

lemma str_split_no_sep: "p \<in> set (str_split sep s) \<Longrightarrow> sep \<notin> set p"
  using split_from_no_sep [of sep "[]" s] by (simp add: str_split_def)

lemma split_from_sep_free: "sep \<notin> set s \<Longrightarrow> split_from sep cur s = [cur @ s]"
  by (induction s arbitrary: cur) auto

lemma split_from_append:
  "sep \<notin> set p \<Longrightarrow>
   split_from sep cur (p @ sep # rest) = (cur @ p) # split_from sep [] rest"
  by (induction p arbitrary: cur) auto

text \<open>A string has one segment more than it has separators.\<close>

lemma length_split_from:
  "length (split_from sep cur s) = Suc (length (filter (\<lambda>c. c = sep) s))"
  by (induction s arbitrary: cur) auto

lemma two_segments_iff: "2 \<le> length (str_split sep s) \<longleftrightarrow> sep \<in> set s"
proof -
  have "filter (\<lambda>c. c = sep) s \<noteq> [] \<longleftrightarrow> sep \<in> set s"
    by (induction s) auto
  then show ?thesis
    by (simp add: str_split_def length_split_from Suc_le_eq)
qed

text \<open>Splitting a join of separator-free segments gives the segments back.\<close>

lemma str_split_str_join:
  "ps \<noteq> [] \<Longrightarrow> \<forall>p \<in> set ps. sep \<notin> set p \<Longrightarrow> str_split sep (str_join [sep] ps) = ps"
proof (induction ps)
  case Nil
  then show ?case by simp
next
  case (Cons p ps)
  show ?case
  proof (cases "ps = []")
    case True
    with Cons.prems show ?thesis
      by (simp add: str_split_def split_from_sep_free)
  next
    case False
    with Cons have "str_split sep (str_join [sep] ps) = ps"
      by simp
    with False Cons.prems show ?thesis
      by (simp add: str_join_Cons str_split_def split_from_append)
  qed
qed

lemma drop_last_two:
  assumes "2 \<le> length xs"
  shows "drop (length xs - 2) xs = [xs ! (length xs - 2), xs ! (length xs - 1)]"
proof -
  have step: "Suc (length xs - 2) = length xs - 1"
    using assms by simp
  have one: "drop (length xs - 1) xs = [xs ! (length xs - 1)]"
    using Cons_nth_drop_Suc [of "length xs - 1" xs] assms by simp
  have "drop (length xs - 2) xs = xs ! (length xs - 2) # drop (length xs - 1) xs"
    using Cons_nth_drop_Suc [of "length xs - 2" xs] assms step by simp
  with one show ?thesis by simp
qed

lemma slice_from_minus_two: "slice_from xs (- 2) = drop (length xs - 2) xs"
  by (simp add: slice_from_def Let_def nat_diff_distrib' max_def)

lemma slice_from_short: "length xs \<le> 2 \<Longrightarrow> slice_from xs (- 2) = xs"
  by (simp add: slice_from_minus_two)

lemma py_index_last: "xs \<noteq> [] \<Longrightarrow> py_index xs (- 1) = Inr (last xs)"
  by (cases xs rule: rev_cases) (simp_all add: py_index_def Let_def nat_diff_distrib')

section \<open>The identifier extractor\<close>

text \<open>
  What \<open>extract_model_id\<close> returns, stated without the splitting function: the text
  after the last but one slash.
\<close>

lemma split_from_ends:
  assumes "sep \<notin> set a" and "sep \<notin> set b"
  shows "\<exists>front. split_from sep cur (s @ sep # a @ sep # b) = front @ [a, b]"
proof (induction s arbitrary: cur)
  case Nil
  have "split_from sep cur ([] @ sep # a @ sep # b) = [cur] @ [a, b]"
    using assms by (simp add: split_from_append split_from_sep_free)
  then show ?case by blast
next
  case (Cons c s)
  show ?case
  proof (cases "c = sep")
    case True
    obtain front where "split_from sep [] (s @ sep # a @ sep # b) = front @ [a, b]"
      using Cons.IH by blast
    with True have
      "split_from sep cur ((c # s) @ sep # a @ sep # b) = (cur # front) @ [a, b]"
      by simp
    then show ?thesis by blast
  next
    case False
    then show ?thesis using Cons.IH [of "cur @ [c]"] by simp
  qed
qed

lemma extract_model_id_suffix:
  assumes "CHR ''/'' \<notin> set a" and "CHR ''/'' \<notin> set b"
  shows "extract_model_id (pre @ ''/'' @ a @ ''/'' @ b) = a @ ''/'' @ b"
proof -
  obtain front where "str_split CHR ''/'' (pre @ ''/'' @ a @ ''/'' @ b) = front @ [a, b]"
    using split_from_ends [OF assms, of "[]" pre] by (auto simp: str_split_def)
  then show ?thesis
    by (simp add: extract_model_id_def Let_def slice_from_minus_two)
qed

lemma str_split_extract_model_id:
  "str_split CHR ''/'' (extract_model_id u) = slice_from (str_split CHR ''/'' u) (- 2)"
proof -
  let ?parts = "str_split CHR ''/'' u"
  let ?tail = "slice_from ?parts (- 2)"
  have nonempty: "?tail \<noteq> []"
    using str_split_not_Nil [of "CHR ''/''" u]
    by (cases "?parts") (auto simp: slice_from_minus_two)
  have "set ?tail \<subseteq> set ?parts"
    by (simp add: slice_from_minus_two set_drop_subset)
  then have free: "\<forall>p \<in> set ?tail. CHR ''/'' \<notin> set p"
    using str_split_no_sep [of _ "CHR ''/''" u] by auto
  show ?thesis
    using str_split_str_join [OF nonempty free] by (simp add: extract_model_id_def)
qed

text \<open>The index \<^verbatim>\<open>[-1]\<close> of a split is never out of range.\<close>

lemma MODEL_NAME_total:
  "MODEL_NAME model_id = Inr (last (str_split CHR ''/'' model_id))"
  by (simp add: MODEL_NAME_def py_index_last str_split_not_Nil)

lemma MODEL_NAME_no_slash: "MODEL_NAME model_id = Inr name \<Longrightarrow> CHR ''/'' \<notin> set name"
proof -
  assume "MODEL_NAME model_id = Inr name"
  then have "name = last (str_split CHR ''/'' model_id)"
    by (simp add: MODEL_NAME_total)
  then have "name \<in> set (str_split CHR ''/'' model_id)"
    by (simp add: str_split_not_Nil)
  then show ?thesis
    by (rule str_split_no_sep)
qed

lemma MODEL_NAME_last_segment:
  "MODEL_NAME (extract_model_id u) = Inr (last (str_split CHR ''/'' u))"
proof -
  have "length (str_split CHR ''/'' u) - 2 < length (str_split CHR ''/'' u)"
    using str_split_not_Nil [of "CHR ''/''" u] by (cases "str_split CHR ''/'' u") auto
  then show ?thesis
    by (simp add: MODEL_NAME_total str_split_extract_model_id slice_from_minus_two)
qed


text \<open>
  Claim C1. For every repository reference with at least two segments between slashes,
  \<open>extract_model_id\<close> returns the last two segments joined by a slash. The function is
  a total function from strings to strings: it has no event and no error result, and it
  checks nothing about the reference. The reference of the specification's example,
  \<^verbatim>\<open>https://host/org/model-name\<close>, gives \<^verbatim>\<open>org/model-name\<close>.
\<close>

theorem extract_model_id_last_two:
  assumes "2 \<le> length (str_split CHR ''/'' u)"
  shows "extract_model_id u =
           str_split CHR ''/'' u ! (length (str_split CHR ''/'' u) - 2) @ ''/'' @
           str_split CHR ''/'' u ! (length (str_split CHR ''/'' u) - 1)"
  using assms by (simp add: extract_model_id_def Let_def slice_from_minus_two drop_last_two)

theorem extract_model_id_last_two_witness:
  "2 \<le> length (str_split CHR ''/'' ''https://host/org/model-name'') \<and>
   extract_model_id ''https://host/org/model-name'' = ''org/model-name''"
proof -
  have parts: "str_split CHR ''/'' ''https://host/org/model-name'' =
                 [''https:'', [], ''host'', ''org'', ''model-name'']"
    by (simp add: str_split_def)
  then have two: "2 \<le> length (str_split CHR ''/'' ''https://host/org/model-name'')"
    by simp
  show ?thesis
    using two extract_model_id_last_two [OF two] by (simp add: parts)
qed

text \<open>
  Claim C9. \<open>extract_model_id\<close> is idempotent: its result has at most two segments,
  none of which contains a slash, so a second application splits it into the same
  segments and joins them again.
\<close>

theorem extract_model_id_idempotent:
  "extract_model_id (extract_model_id u) = extract_model_id u"
proof -
  have "length (slice_from (str_split CHR ''/'' u) (- 2)) \<le> 2"
    by (simp add: slice_from_minus_two)
  then have "slice_from (slice_from (str_split CHR ''/'' u) (- 2)) (- 2) =
             slice_from (str_split CHR ''/'' u) (- 2)"
    by (rule slice_from_short)
  then show ?thesis
    by (simp add: extract_model_id_def [of "extract_model_id u"] str_split_extract_model_id)
      (simp add: extract_model_id_def)
qed

text \<open>
  Claim C10. A reference with no slash, the empty string among them, has one segment,
  and \<open>extract_model_id\<close> returns it unchanged: nothing is raised.
\<close>

theorem extract_model_id_no_slash:
  "CHR ''/'' \<notin> set u \<Longrightarrow> extract_model_id u = u"
  by (simp add: extract_model_id_def str_split_def split_from_sep_free slice_from_minus_two)

theorem extract_model_id_no_slash_witness:
  "CHR ''/'' \<notin> set ''model-name'' \<and> extract_model_id ''model-name'' = ''model-name'' \<and>
   CHR ''/'' \<notin> set [] \<and> extract_model_id [] = []"
  using extract_model_id_no_slash [of "''model-name''"] extract_model_id_no_slash [of "[]"]
  by simp

section \<open>Events of the steps\<close>

lemma fst_bind_io:
  "fst (bind_io m f) = (case snd m of Inl e \<Rightarrow> fst m | Inr x \<Rightarrow> fst m @ fst (f x))"
  by (simp add: bind_io_def split: sum.split)

lemma snd_bind_io:
  "snd (bind_io m f) = (case snd m of Inl e \<Rightarrow> Inl e | Inr x \<Rightarrow> snd (f x))"
  by (simp add: bind_io_def split: sum.split)

lemma bind_io_Inr: "snd m = Inr x \<Longrightarrow> bind_io m f = (fst m @ fst (f x), snd (f x))"
  by (simp add: bind_io_def)

lemma bind_io_Inl: "snd m = Inl e \<Longrightarrow> bind_io m f = (fst m, Inl e)"
  by (simp add: bind_io_def)

lemma then_io_Inr: "snd m = Inr x \<Longrightarrow> then_io m k = (fst m @ fst k, snd k)"
  by (simp add: then_io_def bind_io_def)

lemma then_io_Inl: "snd m = Inl e \<Longrightarrow> then_io m k = (fst m, Inl e)"
  by (simp add: then_io_def bind_io_def)

lemma then_io_returned: "then_io (es, Inr x) k = (es @ fst k, snd k)"
  by (simp add: then_io_def bind_io_def)

lemma then_io_raised: "then_io (es, Inl e) k = (es, Inl e)"
  by (simp add: then_io_def bind_io_def)

lemma bind_io_returned: "bind_io (es, Inr x) f = (es @ fst (f x), snd (f x))"
  by (simp add: bind_io_def)

lemma bind_io_raised: "bind_io (es, Inl e) f = (es, Inl e)"
  by (simp add: bind_io_def)

lemmas io_simps =
  then_io_returned then_io_raised bind_io_returned bind_io_raised return_io_def emit_def

lemma print_eq: "print s = ([Print (s @ newline)], Inr ())"
  by (simp add: print_def emit_def)

lemma then_print: "then_io (print s) k = (Print (s @ newline) # fst k, snd k)"
  by (simp add: then_io_Inr print_eq)

lemma then_emit: "then_io (emit ev) k = (ev # fst k, snd k)"
  by (simp add: then_io_Inr emit_def)

lemma print_lines_eq: "print_lines ls = (map Print ls, Inr ())"
  by (induction ls) (simp_all add: return_io_def print_end_def then_emit)

lemma print_items_eq:
  "print_items kvs = (map (\<lambda>(key, description). Print (key @ '': '' @ description @ newline)) kvs, Inr ())"
  by (induction kvs rule: print_items.induct) (simp_all add: return_io_def then_print)

lemma hf_login_returns: "snd (hf_login w) = Inr ()"
  by (simp add: hf_login_def print_eq then_emit split: option.split)

lemma clone_repository_returns: "snd (clone_repository w url) = Inr ()"
  by (simp add: clone_repository_def print_eq then_emit then_print print_lines_eq then_io_Inr
      split: attempt.split)


lemma convert_raises:
  "convert_result w = Raises e \<Longrightarrow>
   convert_model_to_fp16 w n f =
     ([Run [''python'', ''llama.cpp/convert.py'', n, ''--outtype'', ''f16'', ''--outfile'', f]],
      Inl (OtherException e))"
  by (simp add: convert_model_to_fp16_def io_simps)

lemma convert_finished:
  "convert_result w = Finished r \<Longrightarrow>
   convert_model_to_fp16 w n f =
     (Run [''python'', ''llama.cpp/convert.py'', n, ''--outtype'', ''f16'', ''--outfile'', f] #
      (if returncode r = 0
       then [Print (''Model conversion to fp16 successful. Output:'' @ newline),
             Print (stdout r @ newline)]
       else [Print (''An error occurred during model conversion:'' @ newline),
             Print (stderr r @ newline)]),
      Inr ())"
  by (simp add: convert_model_to_fp16_def io_simps print_eq)

lemma convert_first_event:
  "\<exists>rest. fst (convert_model_to_fp16 w n f) =
     Run [''python'', ''llama.cpp/convert.py'', n, ''--outtype'', ''f16'', ''--outfile'', f] # rest"
  by (cases "convert_result w") (simp_all add: convert_raises convert_finished)

lemma clone_first_event:
  "\<exists>rest. fst (clone_repository w url) = Run [''git'', ''lfs'', ''install''] # rest"
  by (simp add: clone_repository_def io_simps)

lemma clone_lfs_nonzero:
  "lfs_result w = Finished r \<Longrightarrow> returncode r \<noteq> 0 \<Longrightarrow>
   clone_repository w url =
     ([Run [''git'', ''lfs'', ''install''],
       Print (''Error during Git LFS initialization:'' @ newline),
       Print (stderr r @ newline)], Inr ())"
  by (simp add: clone_repository_def io_simps print_eq)

lemma obtain_method_argv:
  "length (argv w) > 2 \<Longrightarrow> obtain_method w = ([], Inr (argv w ! 2))"
  by (simp add: obtain_method_def return_io_def)

lemma obtain_method_prompt:
  "\<not> length (argv w) > 2 \<Longrightarrow>
   obtain_method w =
     (Print (''Please choose a quantization method from the following options:'' @ newline) #
      map (\<lambda>(code, description). Print (code @ '': '' @ description @ newline))
        QUANTIZATION_METHODS @
      [Input ''Enter your chosen quantization method: ''],
      case method_line w of None \<Rightarrow> Inl EOFError | Some m \<Rightarrow> Inr m)"
  by (simp add: obtain_method_def io_simps print_eq print_items_eq input_def
      split: option.split)

lemma obtain_repository_url_argv:
  "length (argv w) > 1 \<Longrightarrow> obtain_repository_url w = ([], Inr (argv w ! 1))"
  by (simp add: obtain_repository_url_def return_io_def)

lemma obtain_repository_url_prompt:
  "\<not> length (argv w) > 1 \<Longrightarrow>
   obtain_repository_url w =
     ([Input ''Enter the Git repository URL: ''],
      case url_line w of None \<Rightarrow> Inl EOFError | Some u \<Rightarrow> Inr u)"
  by (simp add: obtain_repository_url_def input_def split: option.split)

text \<open>When the two prompted values are obtained.\<close>

lemma obtain_repository_url_returns_iff:
  "snd (obtain_repository_url w) = Inr url \<longleftrightarrow>
     (length (argv w) > 1 \<and> url = argv w ! 1) \<or>
     (\<not> length (argv w) > 1 \<and> url_line w = Some url)"
  by (cases "length (argv w) > 1")
     (auto simp: obtain_repository_url_argv obtain_repository_url_prompt split: option.split)

lemma obtain_method_returns_iff:
  "snd (obtain_method w) = Inr method \<longleftrightarrow>
     (length (argv w) > 2 \<and> method = argv w ! 2) \<or>
     (\<not> length (argv w) > 2 \<and> method_line w = Some method)"
  by (cases "length (argv w) > 2")
     (auto simp: obtain_method_argv obtain_method_prompt split: option.split)

lemma run_quantize_eq:
  "run_quantize w c m =
     (Shell c #
      (case quantize_result w of
         Raises e \<Rightarrow> []
       | Finished status \<Rightarrow>
           if status = 0
           then [Print (''Quantization with method '' @ quote @ m @ quote @
                        '' completed successfully.'' @ newline)]
           else [Print (''An error occurred during quantization: '' @
                        quantize_error_text w @ newline)]),
      case quantize_result w of
        Raises e \<Rightarrow> Inl (OtherException e)
      | Finished status \<Rightarrow> Inr ())"
  by (simp add: run_quantize_def io_simps print_eq split: attempt.split)

section \<open>Events of \<^verbatim>\<open>main\<close>\<close>

text \<open>\<^verbatim>\<open>main\<close> once the URL is known, and when it is not.\<close>

lemma main_with_url:
  assumes "snd (obtain_repository_url w) = Inr url"
    and "MODEL_NAME (extract_model_id url) = Inr name"
  shows "main w =
    (fst (hf_login w) @ fst (obtain_repository_url w) @ fst (clone_repository w url) @
       fst (then_io (convert_model_to_fp16 w name (fp16_output_file w name))
             (bind_io (obtain_method w) (\<lambda>method.
                run_quantize w (quantize_command (fp16_output_file w name) (qtype w name method) method) method))),
     snd (then_io (convert_model_to_fp16 w name (fp16_output_file w name))
             (bind_io (obtain_method w) (\<lambda>method.
                run_quantize w (quantize_command (fp16_output_file w name) (qtype w name method) method) method))))"
  using assms
  by (simp add: main_def Let_def then_io_Inr [OF hf_login_returns]
      then_io_Inr [OF clone_repository_returns] bind_io_Inr)

lemma main_without_url:
  assumes "snd (obtain_repository_url w) = Inl e"
  shows "main w = (fst (hf_login w) @ fst (obtain_repository_url w), Inl e)"
  using assms
  by (simp add: main_def then_io_Inr [OF hf_login_returns] bind_io_Inl)

lemma main_runs_lfs:
  assumes "snd (obtain_repository_url w) = Inr url"
    and "MODEL_NAME (extract_model_id url) = Inr name"
  shows "Run [''git'', ''lfs'', ''install''] \<in> set (fst (main w))"
  using clone_first_event [of w url] by (auto simp: main_with_url [OF assms])

lemma after_clone_events:
  "fst (then_io (convert_model_to_fp16 w n f) (bind_io (obtain_method w) k)) =
     fst (convert_model_to_fp16 w n f) @
     (case convert_result w of
        Raises e \<Rightarrow> []
      | Finished r \<Rightarrow>
          fst (obtain_method w) @
          (case snd (obtain_method w) of Inl e \<Rightarrow> [] | Inr m \<Rightarrow> fst (k m)))"
  by (cases "convert_result w")
     (simp_all add: convert_raises convert_finished io_simps fst_bind_io split: sum.split)

lemma main_runs_convert:
  assumes "snd (obtain_repository_url w) = Inr url"
    and "MODEL_NAME (extract_model_id url) = Inr name"
  shows "Run [''python'', ''llama.cpp/convert.py'', name, ''--outtype'', ''f16'',
              ''--outfile'', fp16_output_file w name] \<in> set (fst (main w))"
  using convert_first_event [of w name "fp16_output_file w name"]
  by (auto simp: main_with_url [OF assms] after_clone_events)

lemma main_runs_quantize:
  assumes "snd (obtain_repository_url w) = Inr url"
    and "MODEL_NAME (extract_model_id url) = Inr name"
    and "convert_result w = Finished r"
    and "snd (obtain_method w) = Inr m"
  shows "Shell (quantize_command (fp16_output_file w name) (qtype w name m) m) \<in> set (fst (main w))"
  using assms(3,4)
  by (simp add: main_with_url [OF assms(1,2)] after_clone_events run_quantize_eq)

lemma main_events:
  assumes "snd (obtain_repository_url w) = Inr url"
    and "MODEL_NAME (extract_model_id url) = Inr name"
    and "convert_result w = Finished r"
  shows "fst (main w) =
     (fst (hf_login w) @ fst (obtain_repository_url w) @ fst (clone_repository w url) @
      fst (convert_model_to_fp16 w name (fp16_output_file w name))) @
     fst (obtain_method w) @
     (case snd (obtain_method w) of
        Inl e \<Rightarrow> []
      | Inr m \<Rightarrow>
          fst (run_quantize w (quantize_command (fp16_output_file w name) (qtype w name m) m) m))"
  using assms(3) by (simp add: main_with_url [OF assms(1,2)] after_clone_events)

lemma main_convert_raises:
  assumes "snd (obtain_repository_url w) = Inr url"
    and "MODEL_NAME (extract_model_id url) = Inr name"
    and "convert_result w = Raises e"
  shows "main w =
     (fst (hf_login w) @ fst (obtain_repository_url w) @ fst (clone_repository w url) @
      [Run [''python'', ''llama.cpp/convert.py'', name, ''--outtype'', ''f16'',
              ''--outfile'', fp16_output_file w name]], Inl (OtherException e))"
  using assms(3) by (simp add: main_with_url [OF assms(1,2)] convert_raises io_simps)

section \<open>Steps that do not read a part of the world\<close>

text \<open>
  Each step reads some fields of the world only. Changing the token and the outcome of the
  login, the outcome of \<^verbatim>\<open>git lfs install\<close>, or the outcome of the conversion
  program leaves the other steps as they are.
\<close>

lemma steps_without_token:
  "obtain_repository_url (w\<lparr>HF_TOKEN := tok, login_result := lr\<rparr>) = obtain_repository_url w"
  "clone_repository (w\<lparr>HF_TOKEN := tok, login_result := lr\<rparr>) = clone_repository w"
  "convert_model_to_fp16 (w\<lparr>HF_TOKEN := tok, login_result := lr\<rparr>) = convert_model_to_fp16 w"
  "obtain_method (w\<lparr>HF_TOKEN := tok, login_result := lr\<rparr>) = obtain_method w"
  "run_quantize (w\<lparr>HF_TOKEN := tok, login_result := lr\<rparr>) = run_quantize w"
  "fp16_output_file (w\<lparr>HF_TOKEN := tok, login_result := lr\<rparr>) = fp16_output_file w"
  "qtype (w\<lparr>HF_TOKEN := tok, login_result := lr\<rparr>) = qtype w"
  by (simp_all add: fun_eq_iff obtain_repository_url_def clone_repository_def
      convert_model_to_fp16_def obtain_method_def run_quantize_def fp16_output_file_def
      qtype_def split: attempt.split option.split)

lemma steps_without_lfs:
  "hf_login (w\<lparr>lfs_result := l\<rparr>) = hf_login w"
  "obtain_repository_url (w\<lparr>lfs_result := l\<rparr>) = obtain_repository_url w"
  "convert_model_to_fp16 (w\<lparr>lfs_result := l\<rparr>) = convert_model_to_fp16 w"
  "obtain_method (w\<lparr>lfs_result := l\<rparr>) = obtain_method w"
  "run_quantize (w\<lparr>lfs_result := l\<rparr>) = run_quantize w"
  "fp16_output_file (w\<lparr>lfs_result := l\<rparr>) = fp16_output_file w"
  "qtype (w\<lparr>lfs_result := l\<rparr>) = qtype w"
  by (simp_all add: fun_eq_iff hf_login_def obtain_repository_url_def
      convert_model_to_fp16_def obtain_method_def run_quantize_def fp16_output_file_def
      qtype_def split: attempt.split option.split)


text \<open>\<^verbatim>\<open>main\<close> is the login followed by the rest, and the rest does not read the token.\<close>

lemma main_after_login:
  "\<exists>rest. (\<forall>tok lr.
      main (w\<lparr>HF_TOKEN := tok, login_result := lr\<rparr>) =
        (fst (hf_login (w\<lparr>HF_TOKEN := tok, login_result := lr\<rparr>)) @ fst rest, snd rest)) \<and>
      main w = (fst (hf_login w) @ fst rest, snd rest)"
proof -
  let ?rest = "bind_io (obtain_repository_url w) (\<lambda>repository_url.
     let model_id = extract_model_id repository_url in
     bind_io ([], MODEL_NAME model_id) (\<lambda>name.
     let fp16 = fp16_output_file w name in
     then_io (clone_repository w repository_url)
    (then_io (convert_model_to_fp16 w name fp16)
    (bind_io (obtain_method w) (\<lambda>method.
     let out = qtype w name method;
         command = quantize_command fp16 out method
     in run_quantize w command method)))))"
  have "main (w\<lparr>HF_TOKEN := tok, login_result := lr\<rparr>) =
        (fst (hf_login (w\<lparr>HF_TOKEN := tok, login_result := lr\<rparr>)) @ fst ?rest, snd ?rest)"
    for tok lr
    by (simp add: main_def steps_without_token then_io_Inr [OF hf_login_returns])
  moreover have "main w = (fst (hf_login w) @ fst ?rest, snd ?rest)"
    by (simp add: main_def then_io_Inr [OF hf_login_returns])
  ultimately show ?thesis by blast
qed

lemma main_result_without_token:
  "snd (main (w\<lparr>HF_TOKEN := tok, login_result := lr\<rparr>)) = snd (main w)"
  using main_after_login [of w] by auto

text \<open>How a run ends does not depend on the outcome of \<^verbatim>\<open>git lfs install\<close>:
  \<open>clone_repository\<close> returns in every case.\<close>

lemma main_result_without_lfs: "snd (main (w\<lparr>lfs_result := l\<rparr>)) = snd (main w)"
proof (cases "snd (obtain_repository_url w)")
  case (Inl e)
  then have "snd (obtain_repository_url (w\<lparr>lfs_result := l\<rparr>)) = Inl e"
    by (simp add: steps_without_lfs)
  from main_without_url [OF this] main_without_url [OF Inl] show ?thesis
    by simp
next
  case (Inr url)
  then have url': "snd (obtain_repository_url (w\<lparr>lfs_result := l\<rparr>)) = Inr url"
    by (simp add: steps_without_lfs)
  note name = MODEL_NAME_total [of "extract_model_id url"]
  show ?thesis
    by (simp add: main_with_url [OF url' name] main_with_url [OF Inr name] steps_without_lfs)
qed


section \<open>Paths and the case of the name\<close>

text \<open>A slash-free directory name is the first segment of a path.\<close>

lemma str_split_dir:
  "CHR ''/'' \<notin> set d \<Longrightarrow>
   str_split CHR ''/'' (d @ CHR ''/'' # rest) = d # str_split CHR ''/'' rest"
  using split_from_append [of "CHR ''/''" d "[]" rest] by (simp add: str_split_def)

text \<open>The URL, the name and the case mappings in the example runs.\<close>

lemma run_complete_url:
  "obtain_repository_url run_complete = ([], Inr ''https://huggingface.co/org/Foo-7B'')"
  by (simp add: obtain_repository_url_argv run_complete_def)

lemma run_prompted_url:
  "obtain_repository_url run_prompted =
     ([Input ''Enter the Git repository URL: ''], Inr ''https://huggingface.co/org/Foo-7B'')"
  by (simp add: obtain_repository_url_prompt run_prompted_def run_complete_def)

lemma example_name:
  "MODEL_NAME (extract_model_id ''https://huggingface.co/org/Foo-7B'') = Inr ''Foo-7B''"
  by (simp add: MODEL_NAME_last_segment str_split_def)

lemma example_lower: "ascii_lower ''Foo-7B'' = ''foo-7b''"
  by (simp add: ascii_lower_def ascii_lower_char_def)

lemma example_upper:
  "ascii_upper ''q4_k_m'' = ''Q4_K_M''"
  "ascii_upper ''fastest; echo done'' = ''FASTEST; ECHO DONE''"
  by (simp_all add: ascii_upper_def ascii_upper_char_def)

lemma example_mappings:
  "str_lower run_complete = ascii_lower" "str_upper run_complete = ascii_upper"
  "str_lower run_prompted = ascii_lower" "str_upper run_prompted = ascii_upper"
  "str_lower run_conversion_fails = ascii_lower" "str_upper run_conversion_fails = ascii_upper"
  "str_lower run_lfs_fails = ascii_lower" "str_upper run_lfs_fails = ascii_upper"
  by (simp_all add: run_complete_def run_prompted_def run_conversion_fails_def run_lfs_fails_def)

lemmas example_simps =
  example_mappings example_lower example_upper fp16_output_file_def qtype_def

text \<open>
  Claim C2. For every name \<open>n\<close> and method \<open>m\<close>, and whatever the library's case
  mappings are, the intermediate path is \<open>n\<close>, a slash, the lowercase of \<open>n\<close> and
  \<^verbatim>\<open>.fp16.bin\<close>, and the final path is \<open>n\<close>, a slash, the lowercase of \<open>n\<close>, a dot,
  the uppercase of \<open>m\<close> and \<^verbatim>\<open>.gguf\<close>. With the lowercase \<^verbatim>\<open>foo-7b\<close> of
  \<^verbatim>\<open>Foo-7B\<close> and the uppercase \<^verbatim>\<open>Q4_K_M\<close> of \<^verbatim>\<open>q4_k_m\<close> these are
  \<^verbatim>\<open>Foo-7B/foo-7b.fp16.bin\<close> and \<^verbatim>\<open>Foo-7B/foo-7b.Q4_K_M.gguf\<close>. These are the
  strings \<open>main\<close> hands over: in a run that obtains the URL and the method and
  whose conversion program runs to its end, the conversion program is started with the
  first path as its output file, and the shell command names both paths.
\<close>

theorem artifact_paths:
  "fp16_output_file w n = n @ ''/'' @ str_lower w n @ ''.fp16.bin'' \<and>
   qtype w n m = n @ ''/'' @ str_lower w n @ ''.'' @ str_upper w m @ ''.gguf'' \<and>
   (str_lower w ''Foo-7B'' = ''foo-7b'' \<and> str_upper w ''q4_k_m'' = ''Q4_K_M'' \<longrightarrow>
      fp16_output_file w ''Foo-7B'' = ''Foo-7B/foo-7b.fp16.bin'' \<and>
      qtype w ''Foo-7B'' ''q4_k_m'' = ''Foo-7B/foo-7b.Q4_K_M.gguf'') \<and>
   (snd (obtain_repository_url w) = Inr url \<and>
    MODEL_NAME (extract_model_id url) = Inr name \<and>
    convert_result w = Finished r \<and>
    snd (obtain_method w) = Inr method \<longrightarrow>
      Run [''python'', ''llama.cpp/convert.py'', name, ''--outtype'', ''f16'', ''--outfile'',
           name @ ''/'' @ str_lower w name @ ''.fp16.bin''] \<in> set (fst (main w)) \<and>
      Shell (''./llama.cpp/quantize '' @
             (name @ ''/'' @ str_lower w name @ ''.fp16.bin'') @ '' '' @
             (name @ ''/'' @ str_lower w name @ ''.'' @ str_upper w method @ ''.gguf'') @ '' '' @
             method) \<in> set (fst (main w)))"
proof -
  have a: "fp16_output_file w n = n @ ''/'' @ str_lower w n @ ''.fp16.bin''" for n
    by (simp add: fp16_output_file_def)
  have b: "qtype w n m = n @ ''/'' @ str_lower w n @ ''.'' @ str_upper w m @ ''.gguf''" for n m
    by (simp add: qtype_def)
  have c: "fp16_output_file w ''Foo-7B'' = ''Foo-7B/foo-7b.fp16.bin'' \<and>
      qtype w ''Foo-7B'' ''q4_k_m'' = ''Foo-7B/foo-7b.Q4_K_M.gguf''"
    if "str_lower w ''Foo-7B'' = ''foo-7b''" "str_upper w ''q4_k_m'' = ''Q4_K_M''"
    using that by (simp add: fp16_output_file_def qtype_def)
  have e: "Run [''python'', ''llama.cpp/convert.py'', name, ''--outtype'', ''f16'', ''--outfile'',
           name @ ''/'' @ str_lower w name @ ''.fp16.bin''] \<in> set (fst (main w))"
    if "snd (obtain_repository_url w) = Inr url" "MODEL_NAME (extract_model_id url) = Inr name"
    using main_runs_convert [OF that] by (simp add: fp16_output_file_def)
  have f: "Shell (''./llama.cpp/quantize '' @
             (name @ ''/'' @ str_lower w name @ ''.fp16.bin'') @ '' '' @
             (name @ ''/'' @ str_lower w name @ ''.'' @ str_upper w method @ ''.gguf'') @ '' '' @
             method) \<in> set (fst (main w))"
    if "snd (obtain_repository_url w) = Inr url" "MODEL_NAME (extract_model_id url) = Inr name"
      "convert_result w = Finished r" "snd (obtain_method w) = Inr method"
    using main_runs_quantize [OF that]
    by (simp add: fp16_output_file_def qtype_def quantize_command_def)
  from a b c e f show ?thesis by blast
qed

theorem artifact_paths_witness:
  "str_lower run_complete ''Foo-7B'' = ''foo-7b'' \<and>
   str_upper run_complete ''q4_k_m'' = ''Q4_K_M'' \<and>
   snd (obtain_repository_url run_complete) = Inr ''https://huggingface.co/org/Foo-7B'' \<and>
   MODEL_NAME (extract_model_id ''https://huggingface.co/org/Foo-7B'') = Inr ''Foo-7B'' \<and>
   convert_result run_complete = Finished \<lparr>returncode = 0, stdout = ''done'', stderr = []\<rparr> \<and>
   snd (obtain_method run_complete) = Inr ''q4_k_m'' \<and>
   fp16_output_file run_complete ''Foo-7B'' = ''Foo-7B/foo-7b.fp16.bin'' \<and>
   qtype run_complete ''Foo-7B'' ''q4_k_m'' = ''Foo-7B/foo-7b.Q4_K_M.gguf'' \<and>
   Run [''python'', ''llama.cpp/convert.py'', ''Foo-7B'', ''--outtype'', ''f16'', ''--outfile'',
        ''Foo-7B/foo-7b.fp16.bin''] \<in> set (fst (main run_complete)) \<and>
   Shell ''./llama.cpp/quantize Foo-7B/foo-7b.fp16.bin Foo-7B/foo-7b.Q4_K_M.gguf q4_k_m''
     \<in> set (fst (main run_complete))"
proof -
  have l: "str_lower run_complete ''Foo-7B'' = ''foo-7b''"
    and p: "str_upper run_complete ''q4_k_m'' = ''Q4_K_M''"
    by (simp_all add: example_simps)
  have u: "snd (obtain_repository_url run_complete) = Inr ''https://huggingface.co/org/Foo-7B''"
    by (simp add: run_complete_url)
  have c: "convert_result run_complete = Finished \<lparr>returncode = 0, stdout = ''done'', stderr = []\<rparr>"
    by (simp add: run_complete_def)
  have m: "snd (obtain_method run_complete) = Inr ''q4_k_m''"
    by (simp add: obtain_method_argv run_complete_def)
  show ?thesis
    using l p u example_name c m
      artifact_paths [of run_complete "''Foo-7B''" "''q4_k_m''"
        "''https://huggingface.co/org/Foo-7B''" "''Foo-7B''"
        "\<lparr>returncode = 0, stdout = ''done'', stderr = []\<rparr>" "''q4_k_m''"]
    by simp
qed

text \<open>
  Claim C8. In every run that obtains the URL, the name derived from it has no slash. So
  in both paths the directory part, which is the segment before the first slash, is the
  name in its original case, and the file part, which is all that follows that slash,
  is built from the lowercase of the name. When the lowercase of the name (and the
  uppercase of the method) has no slash either, the path has just these two segments.
  The conversion program gets the name in its original case as its model argument.
\<close>

theorem name_case_in_paths:
  assumes "snd (obtain_repository_url w) = Inr url"
    and "MODEL_NAME (extract_model_id url) = Inr name"
  shows "CHR ''/'' \<notin> set name \<and>
    fp16_output_file w name = name @ ''/'' @ (str_lower w name @ ''.fp16.bin'') \<and>
    str_split CHR ''/'' (fp16_output_file w name) =
      name # str_split CHR ''/'' (str_lower w name @ ''.fp16.bin'') \<and>
    qtype w name method =
      name @ ''/'' @ (str_lower w name @ ''.'' @ str_upper w method @ ''.gguf'') \<and>
    str_split CHR ''/'' (qtype w name method) =
      name # str_split CHR ''/'' (str_lower w name @ ''.'' @ str_upper w method @ ''.gguf'') \<and>
    (CHR ''/'' \<notin> set (str_lower w name) \<longrightarrow>
       str_split CHR ''/'' (fp16_output_file w name) = [name, str_lower w name @ ''.fp16.bin'']) \<and>
    (CHR ''/'' \<notin> set (str_lower w name) \<and> CHR ''/'' \<notin> set (str_upper w method) \<longrightarrow>
       str_split CHR ''/'' (qtype w name method) =
         [name, str_lower w name @ ''.'' @ str_upper w method @ ''.gguf'']) \<and>
    Run [''python'', ''llama.cpp/convert.py'', name, ''--outtype'', ''f16'', ''--outfile'',
         fp16_output_file w name] \<in> set (fst (main w)) \<and>
    (convert_result w = Finished r \<and> snd (obtain_method w) = Inr method \<longrightarrow>
       Shell (quantize_command (fp16_output_file w name) (qtype w name method) method)
         \<in> set (fst (main w)))"
proof -
  have name: "CHR ''/'' \<notin> set name"
    using assms(2) by (rule MODEL_NAME_no_slash)
  have fp16: "fp16_output_file w name = name @ ''/'' @ (str_lower w name @ ''.fp16.bin'')"
    by (simp add: fp16_output_file_def)
  have fp16_split: "str_split CHR ''/'' (fp16_output_file w name) =
      name # str_split CHR ''/'' (str_lower w name @ ''.fp16.bin'')"
    by (simp add: fp16_output_file_def str_split_dir [OF name])
  have out: "qtype w name method =
      name @ ''/'' @ (str_lower w name @ ''.'' @ str_upper w method @ ''.gguf'')"
    by (simp add: qtype_def)
  have out_split: "str_split CHR ''/'' (qtype w name method) =
      name # str_split CHR ''/'' (str_lower w name @ ''.'' @ str_upper w method @ ''.gguf'')"
    by (simp add: qtype_def str_split_dir [OF name])
  have fp16_two: "str_split CHR ''/'' (fp16_output_file w name) =
      [name, str_lower w name @ ''.fp16.bin'']"
    if "CHR ''/'' \<notin> set (str_lower w name)"
    using that by (simp add: fp16_split) (simp add: str_split_def split_from_sep_free)
  have out_two: "str_split CHR ''/'' (qtype w name method) =
         [name, str_lower w name @ ''.'' @ str_upper w method @ ''.gguf'']"
    if "CHR ''/'' \<notin> set (str_lower w name)" "CHR ''/'' \<notin> set (str_upper w method)"
    using that by (simp add: out_split) (simp add: str_split_def split_from_sep_free)
  have conv: "Run [''python'', ''llama.cpp/convert.py'', name, ''--outtype'', ''f16'', ''--outfile'',
         fp16_output_file w name] \<in> set (fst (main w))"
    using assms by (rule main_runs_convert)
  have quant: "Shell (quantize_command (fp16_output_file w name) (qtype w name method) method)
         \<in> set (fst (main w))"
    if "convert_result w = Finished r" "snd (obtain_method w) = Inr method"
    using assms that by (rule main_runs_quantize)
  from name fp16 fp16_split out out_split fp16_two out_two conv quant show ?thesis
    by blast
qed

theorem name_case_in_paths_witness:
  "snd (obtain_repository_url run_complete) = Inr ''https://huggingface.co/org/Foo-7B'' \<and>
   MODEL_NAME (extract_model_id ''https://huggingface.co/org/Foo-7B'') = Inr ''Foo-7B'' \<and>
   CHR ''/'' \<notin> set (str_lower run_complete ''Foo-7B'') \<and>
   CHR ''/'' \<notin> set (str_upper run_complete ''q4_k_m'') \<and>
   convert_result run_complete = Finished \<lparr>returncode = 0, stdout = ''done'', stderr = []\<rparr> \<and>
   snd (obtain_method run_complete) = Inr ''q4_k_m'' \<and>
   str_split CHR ''/'' (fp16_output_file run_complete ''Foo-7B'') =
     [''Foo-7B'', ''foo-7b.fp16.bin''] \<and>
   str_split CHR ''/'' (qtype run_complete ''Foo-7B'' ''q4_k_m'') =
     [''Foo-7B'', ''foo-7b.Q4_K_M.gguf''] \<and>
   Run [''python'', ''llama.cpp/convert.py'', ''Foo-7B'', ''--outtype'', ''f16'', ''--outfile'',
        ''Foo-7B/foo-7b.fp16.bin''] \<in> set (fst (main run_complete)) \<and>
   Shell ''./llama.cpp/quantize Foo-7B/foo-7b.fp16.bin Foo-7B/foo-7b.Q4_K_M.gguf q4_k_m''
     \<in> set (fst (main run_complete))"
proof -
  have u: "snd (obtain_repository_url run_complete) = Inr ''https://huggingface.co/org/Foo-7B''"
    by (simp add: run_complete_url)
  have l: "CHR ''/'' \<notin> set (str_lower run_complete ''Foo-7B'')"
    and p: "CHR ''/'' \<notin> set (str_upper run_complete ''q4_k_m'')"
    by (simp_all add: example_simps)
  have c: "convert_result run_complete = Finished \<lparr>returncode = 0, stdout = ''done'', stderr = []\<rparr>"
    by (simp add: run_complete_def)
  have m: "snd (obtain_method run_complete) = Inr ''q4_k_m''"
    by (simp add: obtain_method_argv run_complete_def)
  show ?thesis
    using u l p c m
      name_case_in_paths [OF u example_name, of "''q4_k_m''"
        "\<lparr>returncode = 0, stdout = ''done'', stderr = []\<rparr>"]
    by (simp add: example_name example_simps quantize_command_def str_split_def)
qed

section \<open>The quantizer command\<close>

text \<open>
  Claim C5. For every method string and every two paths, the command line is the four
  parts \<^verbatim>\<open>./llama.cpp/quantize\<close>, the fp16 path, the output path and the method,
  joined by single spaces with nothing escaped; it is handed to the shell as one string,
  and it is the only program the step starts. The method is taken as it comes from the
  command line or from the prompt: the catalog is not consulted. In the example run
  \<open>run_prompted\<close> the method \<^verbatim>\<open>fastest; echo done\<close> is no key of the
  catalog and reaches the shell unchanged.
\<close>

theorem quantizer_command_line:
  "hd (fst (run_quantize w (quantize_command fp16 out method) method)) =
     Shell (''./llama.cpp/quantize '' @ fp16 @ '' '' @ out @ '' '' @ method) \<and>
   filter is_Shell (fst (run_quantize w (quantize_command fp16 out method) method)) =
     [Shell (''./llama.cpp/quantize '' @ fp16 @ '' '' @ out @ '' '' @ method)] \<and>
   filter is_Run (fst (run_quantize w (quantize_command fp16 out method) method)) = [] \<and>
   (length (argv w) > 2 \<longrightarrow> obtain_method w = ([], Inr (argv w ! 2))) \<and>
   (\<not> length (argv w) > 2 \<and> method_line w = Some method \<longrightarrow>
      snd (obtain_method w) = Inr method) \<and>
   (snd (obtain_repository_url w) = Inr url \<and>
    MODEL_NAME (extract_model_id url) = Inr name \<and>
    convert_result w = Finished r \<and>
    snd (obtain_method w) = Inr method \<longrightarrow>
      Shell (''./llama.cpp/quantize '' @ fp16_output_file w name @ '' '' @
             qtype w name method @ '' '' @ method) \<in> set (fst (main w)))"
proof -
  have a: "hd (fst (run_quantize w (quantize_command fp16 out method) method)) =
     Shell (''./llama.cpp/quantize '' @ fp16 @ '' '' @ out @ '' '' @ method)"
    by (simp add: run_quantize_eq quantize_command_def)
  have b: "filter is_Shell (fst (run_quantize w (quantize_command fp16 out method) method)) =
     [Shell (''./llama.cpp/quantize '' @ fp16 @ '' '' @ out @ '' '' @ method)]"
    by (simp add: run_quantize_eq quantize_command_def split: attempt.split)
  have c: "filter is_Run (fst (run_quantize w (quantize_command fp16 out method) method)) = []"
    by (simp add: run_quantize_eq split: attempt.split)
  have d: "obtain_method w = ([], Inr (argv w ! 2))" if "length (argv w) > 2"
    using that by (rule obtain_method_argv)
  have e: "snd (obtain_method w) = Inr method"
    if "\<not> length (argv w) > 2" "method_line w = Some method"
    using that by (simp add: obtain_method_prompt)
  have f: "Shell (''./llama.cpp/quantize '' @ fp16_output_file w name @ '' '' @
             qtype w name method @ '' '' @ method) \<in> set (fst (main w))"
    if "snd (obtain_repository_url w) = Inr url" "MODEL_NAME (extract_model_id url) = Inr name"
      "convert_result w = Finished r" "snd (obtain_method w) = Inr method"
    using main_runs_quantize [OF that] by (simp add: quantize_command_def)
  from a b c d e f show ?thesis by blast
qed

theorem quantizer_command_line_witness:
  "map_of QUANTIZATION_METHODS ''fastest; echo done'' = None \<and>
   \<not> length (argv run_prompted) > 2 \<and>
   method_line run_prompted = Some ''fastest; echo done'' \<and>
   snd (obtain_repository_url run_prompted) = Inr ''https://huggingface.co/org/Foo-7B'' \<and>
   MODEL_NAME (extract_model_id ''https://huggingface.co/org/Foo-7B'') = Inr ''Foo-7B'' \<and>
   convert_result run_prompted = Finished \<lparr>returncode = 0, stdout = ''done'', stderr = []\<rparr> \<and>
   snd (obtain_method run_prompted) = Inr ''fastest; echo done'' \<and>
   length (argv run_complete) > 2 \<and>
   obtain_method run_complete = ([], Inr ''q4_k_m'') \<and>
   Shell ''./llama.cpp/quantize Foo-7B/foo-7b.fp16.bin Foo-7B/foo-7b.FASTEST; ECHO DONE.gguf fastest; echo done''
     \<in> set (fst (main run_prompted))"
proof -
  have cat: "map_of QUANTIZATION_METHODS ''fastest; echo done'' = None"
    by (simp add: QUANTIZATION_METHODS_def)
  have n: "\<not> length (argv run_prompted) > 2"
    by (simp add: run_prompted_def run_complete_def)
  have l: "method_line run_prompted = Some ''fastest; echo done''"
    by (simp add: run_prompted_def)
  have u: "snd (obtain_repository_url run_prompted) = Inr ''https://huggingface.co/org/Foo-7B''"
    by (simp add: run_prompted_url)
  have c: "convert_result run_prompted = Finished \<lparr>returncode = 0, stdout = ''done'', stderr = []\<rparr>"
    by (simp add: run_prompted_def run_complete_def)
  have g: "length (argv run_complete) > 2" "argv run_complete ! 2 = ''q4_k_m''"
    by (simp_all add: run_complete_def)
  note q = quantizer_command_line [of run_prompted _ _ "''fastest; echo done''"
        "''https://huggingface.co/org/Foo-7B''" "''Foo-7B''"
        "\<lparr>returncode = 0, stdout = ''done'', stderr = []\<rparr>"]
  have m: "snd (obtain_method run_prompted) = Inr ''fastest; echo done''"
    using q n l by blast
  have s: "Shell (''./llama.cpp/quantize '' @ fp16_output_file run_prompted ''Foo-7B'' @ '' '' @
             qtype run_prompted ''Foo-7B'' ''fastest; echo done'' @ '' '' @ ''fastest; echo done'')
            \<in> set (fst (main run_prompted))"
    using q u example_name c m by blast
  have o: "obtain_method run_complete = ([], Inr ''q4_k_m'')"
    using quantizer_command_line [of run_complete] g by simp
  from s have "Shell ''./llama.cpp/quantize Foo-7B/foo-7b.fp16.bin Foo-7B/foo-7b.FASTEST; ECHO DONE.gguf fastest; echo done''
     \<in> set (fst (main run_prompted))"
    by (simp add: example_simps)
  with cat n l u example_name c m g(1) o show ?thesis
    by blast
qed
section \<open>The printed catalog\<close>

lemma obtain_repository_url_cases:
  "(\<exists>url. snd (obtain_repository_url w) = Inr url) \<or>
   (length (argv w) \<le> 1 \<and> url_line w = None \<and> snd (obtain_repository_url w) = Inl EOFError)"
  by (cases "length (argv w) > 1")
     (auto simp: obtain_repository_url_argv obtain_repository_url_prompt split: option.split)

text \<open>
  Claim C6. In every run with no second command-line argument, the step that obtains the
  method prints the heading, then one line \<^verbatim>\<open>code: description\<close> for each of the 14
  entries of the catalog in its order, then shows the prompt. The keys of the catalog are
  distinct, so the list is the dictionary, and no entry holds a newline, so each is
  printed as one line. These events stand in the events of
  \<open>main\<close> unless the run has ended before: with \<^verbatim>\<open>EOFError\<close> at the prompt for
  the URL, or with the exception of a conversion program that could not be run.
\<close>

theorem catalog_printed:
  assumes "\<not> length (argv w) > 2"
  shows "fst (obtain_method w) =
      Print (''Please choose a quantization method from the following options:'' @ newline) #
      map (\<lambda>(code, description). Print (code @ '': '' @ description @ newline))
        QUANTIZATION_METHODS @
      [Input ''Enter your chosen quantization method: ''] \<and>
    length QUANTIZATION_METHODS = 14 \<and>
    distinct (map fst QUANTIZATION_METHODS) \<and>
    list_all (\<lambda>(code, description). CHR 0x0A \<notin> set (code @ '': '' @ description))
      QUANTIZATION_METHODS \<and>
    ((\<exists>before after. fst (main w) = before @ fst (obtain_method w) @ after) \<or>
     (length (argv w) \<le> 1 \<and> url_line w = None \<and> snd (main w) = Inl EOFError) \<or>
     (\<exists>e. convert_result w = Raises e \<and> snd (main w) = Inl (OtherException e)))"
proof -
  have block: "fst (obtain_method w) =
      Print (''Please choose a quantization method from the following options:'' @ newline) #
      map (\<lambda>(code, description). Print (code @ '': '' @ description @ newline))
        QUANTIZATION_METHODS @
      [Input ''Enter your chosen quantization method: '']"
    using assms by (simp add: obtain_method_prompt)
  have len: "length QUANTIZATION_METHODS = 14"
    by (simp add: QUANTIZATION_METHODS_def)
  have keys: "distinct (map fst QUANTIZATION_METHODS)"
    by (simp add: QUANTIZATION_METHODS_def)
  have lines: "list_all (\<lambda>(code, description). CHR 0x0A \<notin> set (code @ '': '' @ description))
      QUANTIZATION_METHODS"
    by (simp add: QUANTIZATION_METHODS_def)
  have runs: "(\<exists>before after. fst (main w) = before @ fst (obtain_method w) @ after) \<or>
     (length (argv w) \<le> 1 \<and> url_line w = None \<and> snd (main w) = Inl EOFError) \<or>
     (\<exists>e. convert_result w = Raises e \<and> snd (main w) = Inl (OtherException e))"
  proof (cases "snd (obtain_repository_url w)")
    case (Inl e)
    with obtain_repository_url_cases [of w]
    have "length (argv w) \<le> 1 \<and> url_line w = None \<and> e = EOFError"
      by auto
    with main_without_url [OF Inl] show ?thesis by simp
  next
    case (Inr url)
    note name = MODEL_NAME_total [of "extract_model_id url"]
    show ?thesis
    proof (cases "convert_result w")
      case (Finished r)
      from main_events [OF Inr name Finished] show ?thesis by blast
    next
      case (Raises e)
      from main_convert_raises [OF Inr name Raises] Raises show ?thesis by simp
    qed
  qed
  from block len keys lines runs show ?thesis by blast
qed

theorem catalog_printed_witness:
  "\<not> length (argv run_prompted) > 2 \<and>
   fst (obtain_method run_prompted) =
     [Print (''Please choose a quantization method from the following options:'' @ newline),
      Print (''q2_k: Uses Q4_K for the attention.vw and feed_forward.w2 tensors, Q2_K for the other tensors.'' @ newline),
      Print (''q3_k_l: Uses Q5_K for the attention.wv, attention.wo, and feed_forward.w2 tensors, else Q3_K'' @ newline),
      Print (''q3_k_m: Uses Q4_K for the attention.wv, attention.wo, and feed_forward.w2 tensors, else Q3_K'' @ newline),
      Print (''q3_k_s: Uses Q3_K for all tensors'' @ newline),
      Print (''q4_0: Original quant method, 4-bit.'' @ newline),
      Print (''q4_1: Higher accuracy than q4_0 but not as high as q5_0. However has quicker inference than q5 models.'' @ newline),
      Print (''q4_k_m: Uses Q6_K for half of the attention.wv and feed_forward.w2 tensors, else Q4_K'' @ newline),
      Print (''q4_k_s: Uses Q4_K for all tensors'' @ newline),
      Print (''q5_0: Higher accuracy, higher resource usage and slower inference.'' @ newline),
      Print (''q5_1: Even higher accuracy, resource usage and slower inference.'' @ newline),
      Print (''q5_k_m: Uses Q6_K for half of the attention.wv and feed_forward.w2 tensors, else Q5_K'' @ newline),
      Print (''q5_k_s: Uses Q5_K for all tensors'' @ newline),
      Print (''q6_k: Uses Q8_K for all tensors'' @ newline),
      Print (''q8_0: Almost indistinguishable from float16. High resource use and slow. Not recommended for most users.'' @ newline),
      Input ''Enter your chosen quantization method: '']"
proof -
  have n: "\<not> length (argv run_prompted) > 2"
    by (simp add: run_prompted_def run_complete_def)
  show ?thesis
    using n catalog_printed [OF n] by (simp add: QUANTIZATION_METHODS_def)
qed

section \<open>Failures that do not stop the pipeline\<close>

text \<open>Only \<open>clone_repository\<close> starts a clone.\<close>

lemma hf_login_no_Popen: "filter is_Popen (fst (hf_login w)) = []"
  by (simp add: hf_login_def io_simps print_eq split: option.split)

lemma obtain_repository_url_no_Popen: "filter is_Popen (fst (obtain_repository_url w)) = []"
  by (simp add: obtain_repository_url_def io_simps input_def split: option.split)

lemma convert_no_Popen: "filter is_Popen (fst (convert_model_to_fp16 w n f)) = []"
  by (cases "convert_result w") (simp_all add: convert_raises convert_finished)

lemma obtain_method_no_Popen: "filter is_Popen (fst (obtain_method w)) = []"
  by (cases "length (argv w) > 2")
     (simp_all add: obtain_method_argv obtain_method_prompt filter_map o_def split_beta)

lemma run_quantize_no_Popen: "filter is_Popen (fst (run_quantize w c m)) = []"
  by (simp add: run_quantize_eq split: attempt.split)

lemma after_clone_no_Popen:
  "filter is_Popen
     (fst (then_io (convert_model_to_fp16 w n f)
             (bind_io (obtain_method w) (\<lambda>method. run_quantize w (c method) method)))) = []"
  by (simp add: after_clone_events convert_no_Popen obtain_method_no_Popen
      run_quantize_no_Popen split: attempt.split sum.split)



text \<open>
  Claim C4. In every run in which \<^verbatim>\<open>git lfs install\<close> exits with a non-zero status
  (the library raises \<^verbatim>\<open>CalledProcessError\<close>), \<open>clone_repository\<close> prints the
  heading and the captured standard error, starts no clone and returns without an
  exception. The failure does not change how the run goes on: \<open>main\<close> ends as it
  ends after any other outcome of \<^verbatim>\<open>git lfs install\<close>; the run has reached the
  acquisition, so it has the URL, and it starts the conversion program, with no clone
  anywhere among its events; and it runs the quantizer command once the conversion
  program has run to its end and the method is obtained.
\<close>

theorem lfs_failure_continues:
  assumes "lfs_result w = Finished r" and "returncode r \<noteq> 0"
  shows "clone_repository w url =
      ([Run [''git'', ''lfs'', ''install''],
        Print (''Error during Git LFS initialization:'' @ newline),
        Print (stderr r @ newline)], Inr ()) \<and>
    snd (main (w\<lparr>lfs_result := l\<rparr>)) = snd (main w) \<and>
    (snd (obtain_repository_url w) = Inr url \<and>
     MODEL_NAME (extract_model_id url) = Inr name \<longrightarrow>
       filter is_Popen (fst (main w)) = [] \<and>
       Run [''python'', ''llama.cpp/convert.py'', name, ''--outtype'', ''f16'', ''--outfile'',
            fp16_output_file w name] \<in> set (fst (main w))) \<and>
    (snd (obtain_repository_url w) = Inr url \<and>
     MODEL_NAME (extract_model_id url) = Inr name \<and>
     convert_result w = Finished c \<and>
     snd (obtain_method w) = Inr method_code \<longrightarrow>
       Shell (''./llama.cpp/quantize '' @ fp16_output_file w name @ '' '' @
              qtype w name method_code @ '' '' @ method_code) \<in> set (fst (main w)))"
proof -
  have a: "clone_repository w url =
      ([Run [''git'', ''lfs'', ''install''],
        Print (''Error during Git LFS initialization:'' @ newline),
        Print (stderr r @ newline)], Inr ())" for url
    using assms by (rule clone_lfs_nonzero)
  have i: "snd (main (w\<lparr>lfs_result := l\<rparr>)) = snd (main w)"
    by (rule main_result_without_lfs)
  have b: "filter is_Popen (fst (main w)) = []"
    if "snd (obtain_repository_url w) = Inr url" "MODEL_NAME (extract_model_id url) = Inr name"
    by (simp add: main_with_url [OF that] hf_login_no_Popen obtain_repository_url_no_Popen
        a after_clone_no_Popen)
  have c: "Run [''python'', ''llama.cpp/convert.py'', name, ''--outtype'', ''f16'', ''--outfile'',
            fp16_output_file w name] \<in> set (fst (main w))"
    if "snd (obtain_repository_url w) = Inr url" "MODEL_NAME (extract_model_id url) = Inr name"
    using that by (rule main_runs_convert)
  have d: "Shell (''./llama.cpp/quantize '' @ fp16_output_file w name @ '' '' @
              qtype w name method_code @ '' '' @ method_code) \<in> set (fst (main w))"
    if "snd (obtain_repository_url w) = Inr url" "MODEL_NAME (extract_model_id url) = Inr name"
      "convert_result w = Finished c" "snd (obtain_method w) = Inr method_code"
    using main_runs_quantize [OF that] by (simp add: quantize_command_def)
  from a i b c d show ?thesis by blast
qed

theorem lfs_failure_continues_witness:
  "lfs_result run_lfs_fails =
     Finished \<lparr>returncode = 1, stdout = [], stderr = ''git: lfs is not a git command''\<rparr> \<and>
   returncode \<lparr>returncode = 1, stdout = [], stderr = ''git: lfs is not a git command''\<rparr> \<noteq> 0 \<and>
   snd (obtain_repository_url run_lfs_fails) = Inr ''https://huggingface.co/org/Foo-7B'' \<and>
   MODEL_NAME (extract_model_id ''https://huggingface.co/org/Foo-7B'') = Inr ''Foo-7B'' \<and>
   convert_result run_lfs_fails = Finished \<lparr>returncode = 0, stdout = ''done'', stderr = []\<rparr> \<and>
   snd (obtain_method run_lfs_fails) = Inr ''q4_k_m'' \<and>
   clone_repository run_lfs_fails ''https://huggingface.co/org/Foo-7B'' =
      ([Run [''git'', ''lfs'', ''install''],
        Print (''Error during Git LFS initialization:'' @ newline),
        Print (''git: lfs is not a git command'' @ newline)], Inr ()) \<and>
   snd (main (run_lfs_fails
          \<lparr>lfs_result := Finished \<lparr>returncode = 0, stdout = [], stderr = []\<rparr>\<rparr>)) =
     snd (main run_lfs_fails) \<and>
   filter is_Popen (fst (main run_lfs_fails)) = [] \<and>
   Run [''python'', ''llama.cpp/convert.py'', ''Foo-7B'', ''--outtype'', ''f16'', ''--outfile'',
        ''Foo-7B/foo-7b.fp16.bin''] \<in> set (fst (main run_lfs_fails)) \<and>
   Shell ''./llama.cpp/quantize Foo-7B/foo-7b.fp16.bin Foo-7B/foo-7b.Q4_K_M.gguf q4_k_m''
     \<in> set (fst (main run_lfs_fails))"
proof -
  let ?w = run_lfs_fails
  let ?r = "\<lparr>returncode = 1, stdout = [], stderr = ''git: lfs is not a git command''\<rparr>"
  have l: "lfs_result ?w = Finished ?r"
    by (simp add: run_lfs_fails_def)
  have nz: "returncode ?r \<noteq> 0"
    by simp
  have u: "snd (obtain_repository_url ?w) = Inr ''https://huggingface.co/org/Foo-7B''"
    by (simp add: obtain_repository_url_argv run_lfs_fails_def run_complete_def)
  have c: "convert_result ?w = Finished \<lparr>returncode = 0, stdout = ''done'', stderr = []\<rparr>"
    by (simp add: run_lfs_fails_def run_complete_def)
  have m: "snd (obtain_method ?w) = Inr ''q4_k_m''"
    by (simp add: obtain_method_argv run_lfs_fails_def run_complete_def)
  show ?thesis
    using l u c m example_name
      lfs_failure_continues [OF l nz,
        where url = "''https://huggingface.co/org/Foo-7B''"
          and l = "Finished \<lparr>returncode = 0, stdout = [], stderr = []\<rparr>"
          and name = "''Foo-7B''"
          and c = "\<lparr>returncode = 0, stdout = ''done'', stderr = []\<rparr>"
          and method_code = "''q4_k_m''"]
    by (simp add: example_simps)
qed

text \<open>
  Claim C7. In every run in which \<^verbatim>\<open>HF_TOKEN\<close> is absent, \<open>hf_login\<close> prints that
  the token was not found and returns without an exception. The absence does not change
  how the run goes on: after the events of the login, \<open>main\<close> has the same events
  and ends the same way as with any token and any outcome of the login. So the absence
  of the token never halts the pipeline: a run that obtains the URL starts the
  acquisition (\<^verbatim>\<open>git lfs install\<close>) and the conversion program, and runs the
  quantizer command once the conversion program has run to its end and the method is
  obtained.
\<close>

theorem token_absent_continues:
  assumes "HF_TOKEN w = None"
  shows "hf_login w =
      ([Print (''Hugging Face token not found in environment variables.'' @ newline)], Inr ()) \<and>
    snd (hf_login w) = Inr () \<and>
    snd (main (w\<lparr>HF_TOKEN := tok, login_result := lr\<rparr>)) = snd (main w) \<and>
    (\<exists>rest.
       fst (main w) = fst (hf_login w) @ rest \<and>
       fst (main (w\<lparr>HF_TOKEN := tok, login_result := lr\<rparr>)) =
         fst (hf_login (w\<lparr>HF_TOKEN := tok, login_result := lr\<rparr>)) @ rest) \<and>
    (snd (obtain_repository_url w) = Inr url \<and>
     MODEL_NAME (extract_model_id url) = Inr name \<longrightarrow>
       Run [''git'', ''lfs'', ''install''] \<in> set (fst (main w)) \<and>
       Run [''python'', ''llama.cpp/convert.py'', name, ''--outtype'', ''f16'', ''--outfile'',
            fp16_output_file w name] \<in> set (fst (main w))) \<and>
    (snd (obtain_repository_url w) = Inr url \<and>
     MODEL_NAME (extract_model_id url) = Inr name \<and>
     convert_result w = Finished c \<and>
     snd (obtain_method w) = Inr method_code \<longrightarrow>
       Shell (''./llama.cpp/quantize '' @ fp16_output_file w name @ '' '' @
              qtype w name method_code @ '' '' @ method_code) \<in> set (fst (main w)))"
proof -
  have a: "hf_login w =
      ([Print (''Hugging Face token not found in environment variables.'' @ newline)], Inr ())"
    using assms by (simp add: hf_login_def print_eq)
  have r: "snd (hf_login w) = Inr ()"
    by (rule hf_login_returns)
  have i: "snd (main (w\<lparr>HF_TOKEN := tok, login_result := lr\<rparr>)) = snd (main w)"
    by (rule main_result_without_token)
  have j: "\<exists>rest.
       fst (main w) = fst (hf_login w) @ rest \<and>
       fst (main (w\<lparr>HF_TOKEN := tok, login_result := lr\<rparr>)) =
         fst (hf_login (w\<lparr>HF_TOKEN := tok, login_result := lr\<rparr>)) @ rest"
  proof -
    obtain rest where
      "\<forall>tok lr. main (w\<lparr>HF_TOKEN := tok, login_result := lr\<rparr>) =
        (fst (hf_login (w\<lparr>HF_TOKEN := tok, login_result := lr\<rparr>)) @ fst rest, snd rest)"
      and "main w = (fst (hf_login w) @ fst rest, snd rest)"
      using main_after_login [of w] by blast
    then have "fst (main w) = fst (hf_login w) @ fst rest \<and>
       fst (main (w\<lparr>HF_TOKEN := tok, login_result := lr\<rparr>)) =
         fst (hf_login (w\<lparr>HF_TOKEN := tok, login_result := lr\<rparr>)) @ fst rest"
      by simp
    then show ?thesis by blast
  qed
  have b: "Run [''git'', ''lfs'', ''install''] \<in> set (fst (main w))"
    if "snd (obtain_repository_url w) = Inr url" "MODEL_NAME (extract_model_id url) = Inr name"
    using that by (rule main_runs_lfs)
  have c: "Run [''python'', ''llama.cpp/convert.py'', name, ''--outtype'', ''f16'', ''--outfile'',
            fp16_output_file w name] \<in> set (fst (main w))"
    if "snd (obtain_repository_url w) = Inr url" "MODEL_NAME (extract_model_id url) = Inr name"
    using that by (rule main_runs_convert)
  have d: "Shell (''./llama.cpp/quantize '' @ fp16_output_file w name @ '' '' @
              qtype w name method_code @ '' '' @ method_code) \<in> set (fst (main w))"
    if "snd (obtain_repository_url w) = Inr url" "MODEL_NAME (extract_model_id url) = Inr name"
      "convert_result w = Finished c" "snd (obtain_method w) = Inr method_code"
    using main_runs_quantize [OF that] by (simp add: quantize_command_def)
  from a r i j b c d show ?thesis by blast
qed

theorem token_absent_continues_witness:
  "HF_TOKEN run_complete = None \<and>
   snd (obtain_repository_url run_complete) = Inr ''https://huggingface.co/org/Foo-7B'' \<and>
   MODEL_NAME (extract_model_id ''https://huggingface.co/org/Foo-7B'') = Inr ''Foo-7B'' \<and>
   convert_result run_complete = Finished \<lparr>returncode = 0, stdout = ''done'', stderr = []\<rparr> \<and>
   snd (obtain_method run_complete) = Inr ''q4_k_m'' \<and>
   hf_login run_complete =
      ([Print (''Hugging Face token not found in environment variables.'' @ newline)], Inr ()) \<and>
   snd (main (run_complete\<lparr>HF_TOKEN := Some ''hf_secret'', login_result := None\<rparr>)) =
     snd (main run_complete) \<and>
   Run [''git'', ''lfs'', ''install''] \<in> set (fst (main run_complete)) \<and>
   Run [''python'', ''llama.cpp/convert.py'', ''Foo-7B'', ''--outtype'', ''f16'', ''--outfile'',
        ''Foo-7B/foo-7b.fp16.bin''] \<in> set (fst (main run_complete)) \<and>
   Shell ''./llama.cpp/quantize Foo-7B/foo-7b.fp16.bin Foo-7B/foo-7b.Q4_K_M.gguf q4_k_m''
     \<in> set (fst (main run_complete))"
proof -
  let ?w = run_complete
  have t: "HF_TOKEN ?w = None"
    by (simp add: run_complete_def)
  have u: "snd (obtain_repository_url ?w) = Inr ''https://huggingface.co/org/Foo-7B''"
    by (simp add: run_complete_url)
  have c: "convert_result ?w = Finished \<lparr>returncode = 0, stdout = ''done'', stderr = []\<rparr>"
    by (simp add: run_complete_def)
  have m: "snd (obtain_method ?w) = Inr ''q4_k_m''"
    by (simp add: obtain_method_argv run_complete_def)
  show ?thesis
    using t u c m example_name
      token_absent_continues [OF t,
        where tok = "Some ''hf_secret''" and lr = None
          and url = "''https://huggingface.co/org/Foo-7B''" and name = "''Foo-7B''"
          and c = "\<lparr>returncode = 0, stdout = ''done'', stderr = []\<rparr>"
          and method_code = "''q4_k_m''"]
    by (simp add: example_simps)
qed

end
